theory Spec2Isabelle
  imports Complex_Main
begin

section \<open>The parking scenario (srunner/scenarios/parking.py)\<close>

text \<open>
  The class \<^verbatim>\<open>ParkingScenario\<close> places three supporting actors relative to the pose of
  the ego vehicle, builds a behaviour tree for the walker and one collision criterion.
  The methods are embedded as functions on an explicit state: the objects of the
  simulator library (\<^verbatim>\<open>carla.Transform\<close>) live in a store addressed by reference, the
  calls made to the simulator are recorded in order, and every Python exception is a
  value of the type \<open>error\<close>.

  The coordinates and angles of the simulator library are 32-bit floating-point
  numbers, and the arithmetic on them rounds. The numbers of the library are the type
  parameter \<open>'n\<close>, the numbers of Python the type parameter \<open>'p\<close>, and the operations on
  them are parameters of the model (the record \<open>library\<close>): the theorems about the
  methods hold for whatever arithmetic stands there. The second part of the theory gives
  the arithmetic of IEEE 754 as one such library and runs the scenario on it.
\<close>

subsection \<open>Errors as values\<close>

datatype error =
    KeyError string         \<comment> \<open>a dictionary has no such key\<close>
  | IndexError              \<comment> \<open>a list index out of range\<close>
  | InvalidReference nat    \<comment> \<open>a reference to no object of the store\<close>
  | AttributeError string   \<comment> \<open>an object has no such attribute or method\<close>
  | OverflowError           \<comment> \<open>a Python integer too large to convert to a float\<close>
  | SpawnError string       \<comment> \<open>the simulator did not deliver the requested actor\<close>

definition ebind :: "'e + 'a \<Rightarrow> ('a \<Rightarrow> 'e + 'b) \<Rightarrow> 'e + 'b" where
  "ebind m f = (case m of Inl e \<Rightarrow> Inl e | Inr v \<Rightarrow> f v)"

text \<open>\<^verbatim>\<open>d[key]\<close> on a dictionary and \<^verbatim>\<open>xs[i]\<close> on a list, with their exceptions.\<close>

definition getitem :: "(string \<rightharpoonup> 'a) \<Rightarrow> string \<Rightarrow> error + 'a" where
  "getitem d key = (case d key of None \<Rightarrow> Inl (KeyError key) | Some v \<Rightarrow> Inr v)"

definition getindex :: "'a list \<Rightarrow> nat \<Rightarrow> error + 'a" where
  "getindex xs i = (if i < length xs then Inr (xs ! i) else Inl IndexError)"

subsection \<open>Vectors, rotations and transforms of the simulator library\<close>

record 'n vector3d =
  vx :: 'n
  vy :: 'n
  vz :: 'n

text \<open>A \<^verbatim>\<open>carla.Location\<close> is a \<^verbatim>\<open>carla.Vector3D\<close> (a subclass with the same fields).\<close>

type_synonym 'n location = "'n vector3d"

record 'n rotation =
  pitch :: 'n
  yaw :: 'n
  roll :: 'n

record 'n transform =
  location :: "'n location"
  rotation :: "'n rotation"

text \<open>
  What the placement uses of the simulator library and of Python's numbers; none of it
  belongs to this repository.
  \<^item> \<open>forward_vector\<close>: \<^verbatim>\<open>Rotation.get_forward_vector()\<close>.
  \<^item> \<open>as_float\<close>: a Python number handed to the library where it expects a float (the
    factor of \<^verbatim>\<open>c * v\<close>); the conversion can raise.
  \<^item> \<open>fmul\<close>, \<open>fadd\<close>: the library's product and sum of two of its floats.
  \<^item> \<open>field_sum\<close>: the value that a field of the library takes when it is assigned the
    Python sum of a field's value and a Python number (\<^verbatim>\<open>a.x += c\<close>, \<^verbatim>\<open>a.x = b.x + c\<close>):
    the field is read as a Python float, the sum is Python's, and the assignment converts
    it back; the sum can raise.
\<close>

record ('n, 'p) library =
  forward_vector :: "'n rotation \<Rightarrow> 'n vector3d"
  as_float :: "'p \<Rightarrow> error + 'n"
  fmul :: "'n \<Rightarrow> 'n \<Rightarrow> 'n"
  fadd :: "'n \<Rightarrow> 'n \<Rightarrow> 'n"
  field_sum :: "'n \<Rightarrow> 'p \<Rightarrow> error + 'n"

text \<open>
  \<^verbatim>\<open>c * v\<close> with a Python number on the left: the number is converted, then every
  component is multiplied by it. \<^verbatim>\<open>a += b\<close> on a location and a vector adds component by
  component.
\<close>

definition vec_scale :: "('n, 'p) library \<Rightarrow> 'p \<Rightarrow> 'n vector3d \<Rightarrow> error + 'n vector3d" where
  "vec_scale lib c v =
     ebind (as_float lib c) (\<lambda>f.
       Inr \<lparr>vx = fmul lib (vx v) f, vy = fmul lib (vy v) f, vz = fmul lib (vz v) f\<rparr>)"

definition vec_add :: "('n, 'p) library \<Rightarrow> 'n vector3d \<Rightarrow> 'n vector3d \<Rightarrow> 'n vector3d" where
  "vec_add lib a b =
     \<lparr>vx = fadd lib (vx a) (vx b), vy = fadd lib (vy a) (vy b), vz = fadd lib (vz a) (vz b)\<rparr>"

subsection \<open>The store of transform objects\<close>

text \<open>
  A Python variable holding a \<^verbatim>\<open>carla.Transform\<close> holds a reference. The store is the
  list of the transform objects created so far, a reference is an index into it. The
  attributes \<^verbatim>\<open>location\<close> and \<^verbatim>\<open>rotation\<close> of a transform are parts of the object
  itself: reading them gives a view of the object, and the constructor
  \<^verbatim>\<open>carla.Transform(location, rotation)\<close> copies the two values into a new object.
  Python has no reference to an object that does not exist; so that the functions are
  total, reading or writing outside the store is the error \<open>InvalidReference\<close>.
\<close>

type_synonym ref = nat
type_synonym 'n store = "'n transform list"

definition load :: "'n store \<Rightarrow> ref \<Rightarrow> error + 'n transform" where
  "load h a = (if a < length h then Inr (h ! a) else Inl (InvalidReference a))"

definition store_at :: "'n store \<Rightarrow> ref \<Rightarrow> 'n transform \<Rightarrow> error + 'n store" where
  "store_at h a t = (if a < length h then Inr (h[a := t]) else Inl (InvalidReference a))"

definition new_transform :: "'n location \<Rightarrow> 'n rotation \<Rightarrow> 'n store \<Rightarrow> ref \<times> 'n store" where
  "new_transform l r h = (length h, h @ [\<lparr>location = l, rotation = r\<rparr>])"

subsection \<open>The placement computation of \<^verbatim>\<open>spawn_actor\<close> (lines 85 to 95)\<close>

text \<open>
  One function per statement, in the order of the source. \<open>actor_transform\<close> is the
  dictionary of the actor's offsets, its values Python numbers; \<open>start_transform\<close> and
  \<open>transform\<close> are references.
\<close>

type_synonym 'p placement_dict = "string \<rightharpoonup> 'p"

text \<open>\<^verbatim>\<open>transform = carla.Transform(start_transform.location, start_transform.rotation)\<close>\<close>

definition copy_start :: "ref \<Rightarrow> 'n store \<Rightarrow> error + (ref \<times> 'n store)" where
  "copy_start start_transform h =
     ebind (load h start_transform) (\<lambda>st.
       Inr (new_transform (location st) (rotation st) h))"

text \<open>
  \<^verbatim>\<open>transform.location += actor_transform[key] * transform.rotation.get_forward_vector()\<close>,
  for the keys \<^verbatim>\<open>'k'\<close> (line 91) and \<^verbatim>\<open>'j'\<close> (line 93).
\<close>

definition advance ::
  "('n, 'p) library \<Rightarrow> 'p placement_dict \<Rightarrow> string \<Rightarrow> ref \<Rightarrow> 'n store \<Rightarrow> error + 'n store" where
  "advance lib actor_transform key transform h =
     ebind (load h transform) (\<lambda>t.
     ebind (getitem actor_transform key) (\<lambda>c.
     ebind (vec_scale lib c (forward_vector lib (rotation t))) (\<lambda>d.
       store_at h transform (t\<lparr>location := vec_add lib (location t) d\<rparr>))))"

text \<open>\<^verbatim>\<open>transform.rotation.yaw += _perp_angle\<close>\<close>

definition turn :: "('n, 'p) library \<Rightarrow> 'p \<Rightarrow> ref \<Rightarrow> 'n store \<Rightarrow> error + 'n store" where
  "turn lib angle transform h =
     ebind (load h transform) (\<lambda>t.
     ebind (field_sum lib (yaw (rotation t)) angle) (\<lambda>y.
       store_at h transform (t\<lparr>rotation := (rotation t)\<lparr>yaw := y\<rparr>\<rparr>)))"

text \<open>\<^verbatim>\<open>transform.rotation.yaw = start_transform.rotation.yaw + actor_transform["yaw"]\<close>\<close>

definition set_final_yaw ::
  "('n, 'p) library \<Rightarrow> 'p placement_dict \<Rightarrow> ref \<Rightarrow> ref \<Rightarrow> 'n store \<Rightarrow> error + 'n store" where
  "set_final_yaw lib actor_transform start_transform transform h =
     ebind (load h start_transform) (\<lambda>st.
     ebind (getitem actor_transform ''yaw'') (\<lambda>w.
     ebind (field_sum lib (yaw (rotation st)) w) (\<lambda>y.
     ebind (load h transform) (\<lambda>t.
       store_at h transform (t\<lparr>rotation := (rotation t)\<lparr>yaw := y\<rparr>\<rparr>)))))"

text \<open>\<^verbatim>\<open>transform.location.z += actor_transform['z']\<close>\<close>

definition lift ::
  "('n, 'p) library \<Rightarrow> 'p placement_dict \<Rightarrow> ref \<Rightarrow> 'n store \<Rightarrow> error + 'n store" where
  "lift lib actor_transform transform h =
     ebind (load h transform) (\<lambda>t.
     ebind (getitem actor_transform ''z'') (\<lambda>dz.
     ebind (field_sum lib (vz (location t)) dz) (\<lambda>z.
       store_at h transform (t\<lparr>location := (location t)\<lparr>vz := z\<rparr>\<rparr>))))"

text \<open>\<^verbatim>\<open>_perp_angle = 90\<close>, a Python integer.\<close>

definition perp_angle :: "'p::numeral" where
  "perp_angle = 90"

text \<open>Lines 85 to 95: the reference of the new transform and the store after them.\<close>

definition compute_transform ::
  "('n, 'p::numeral) library \<Rightarrow> 'p placement_dict \<Rightarrow> ref \<Rightarrow> 'n store
     \<Rightarrow> error + (ref \<times> 'n store)" where
  "compute_transform lib actor_transform start_transform h =
     ebind (copy_start start_transform h) (\<lambda>(transform, h1).
     ebind (advance lib actor_transform ''k'' transform h1) (\<lambda>h2.
     ebind (turn lib perp_angle transform h2) (\<lambda>h3.
     ebind (advance lib actor_transform ''j'' transform h3) (\<lambda>h4.
     ebind (set_final_yaw lib actor_transform start_transform transform h4) (\<lambda>h5.
     ebind (lift lib actor_transform transform h5) (\<lambda>h6.
       Inr (transform, h6)))))))"

text \<open>The value of the transform that lines 85 to 95 produce.\<close>

definition placed ::
  "('n, 'p::numeral) library \<Rightarrow> 'p placement_dict \<Rightarrow> ref \<Rightarrow> 'n store \<Rightarrow> error + 'n transform" where
  "placed lib actor_transform start_transform h =
     ebind (compute_transform lib actor_transform start_transform h) (\<lambda>(transform, h').
       load h' transform)"

subsection \<open>The placement in the words of the specification\<close>

text \<open>
  Start at the reference location and rotation; advance \<open>k\<close> units along the forward
  vector of the reference; turn the yaw by 90 degrees; advance \<open>j\<close> units along the new
  forward vector; overwrite the yaw with the yaw of the reference plus the yaw of the
  placement; add \<open>z\<close> to the vertical coordinate. Every product and sum is the
  library's, and raises where the library's does.
\<close>

definition placement ::
  "('n, 'p::numeral) library \<Rightarrow> 'n transform \<Rightarrow> 'p \<Rightarrow> 'p \<Rightarrow> 'p \<Rightarrow> 'p \<Rightarrow> error + 'n transform" where
  "placement lib reference k j z w =
     (let p0 = location reference;
          r0 = rotation reference
      in
      ebind (vec_scale lib k (forward_vector lib r0)) (\<lambda>forward.
      let p1 = vec_add lib p0 forward in
      ebind (field_sum lib (yaw r0) 90) (\<lambda>quarter.
      let r1 = r0\<lparr>yaw := quarter\<rparr> in
      ebind (vec_scale lib j (forward_vector lib r1)) (\<lambda>sideways.
      let p2 = vec_add lib p1 sideways in
      ebind (field_sum lib (yaw (rotation reference)) w) (\<lambda>final.
      let r2 = r1\<lparr>yaw := final\<rparr> in
      ebind (field_sum lib (vz p2) z) (\<lambda>height.
      let p3 = p2\<lparr>vz := height\<rparr>
      in Inr \<lparr>location = p3, rotation = r2\<rparr>))))))"

subsection \<open>The scenario object and the simulator\<close>

text \<open>
  An actor is known to the scenario by its handle. The simulator is outside the
  repository; what the scenario does to it is the sequence of calls it makes:
  \<^verbatim>\<open>CarlaDataProvider.request_new_actor(name, transform)\<close>, recorded with the handle it
  returned, and \<^verbatim>\<open>actor.set_simulate_physics(flag)\<close>.
\<close>

type_synonym actor = nat

datatype 'n call =
    RequestNewActor string "'n transform" actor
  | SetSimulatePhysics actor bool

text \<open>The fields of the scenario that the methods below read or write.\<close>

record 'n scenario =
  objects :: "'n store"                     \<comment> \<open>the transform objects created so far\<close>
  reference_transform :: ref                \<comment> \<open>\<^verbatim>\<open>self._reference_transform\<close>\<close>
  ego_vehicles :: "actor list"              \<comment> \<open>\<^verbatim>\<open>self.ego_vehicles\<close>\<close>
  other_actors :: "actor list"              \<comment> \<open>\<^verbatim>\<open>self.other_actors\<close>\<close>
  other_actor_target_velocity :: real       \<comment> \<open>\<^verbatim>\<open>self._other_actor_target_velocity\<close>\<close>
  other_actor_max_brake :: real             \<comment> \<open>\<^verbatim>\<open>self._other_actor_max_brake\<close>\<close>
  calls :: "'n call list"                   \<comment> \<open>the calls made to the simulator, oldest first\<close>

text \<open>
  The answer of \<^verbatim>\<open>request_new_actor\<close> is the simulator's: a handle, or an exception.
  It is the parameter \<open>request\<close>, a function of the calls made so far, the name and the
  value of the transform handed over.
\<close>

type_synonym 'n provider = "'n call list \<Rightarrow> string \<Rightarrow> 'n transform \<Rightarrow> error + actor"

subsection \<open>\<^verbatim>\<open>spawn_actor\<close> and \<^verbatim>\<open>_initialize_actors\<close>\<close>

text \<open>
  Lines 85 to 95 compute the transform; line 97 requests the actor with it, line 99
  enables its physics and line 100 appends it to \<^verbatim>\<open>self.other_actors\<close>.
\<close>

definition spawn_actor ::
  "('n, 'p::numeral) library \<Rightarrow> 'n provider \<Rightarrow> string \<Rightarrow> 'p placement_dict \<Rightarrow> ref
     \<Rightarrow> 'n scenario \<Rightarrow> error + 'n scenario" where
  "spawn_actor lib request actor_name actor_transform start_transform s =
     ebind (compute_transform lib actor_transform start_transform (objects s)) (\<lambda>(transform, h).
     ebind (load h transform) (\<lambda>t.
     ebind (request (calls s) actor_name t) (\<lambda>actor.
       Inr (s\<lparr>objects := h,
              calls := calls s @ [RequestNewActor actor_name t actor,
                                  SetSimulatePhysics actor True],
              other_actors := other_actors s @ [actor]\<rparr>))))"

text \<open>
  The dictionary \<^verbatim>\<open>actors_info\<close>, as the list of its items in the order they are
  written: a Python dictionary is iterated in insertion order (the language guarantees
  it from version 3.7 on). Its numbers are Python integers.
\<close>

definition actors_info :: "(string \<times> ('p::{zero,numeral}) placement_dict) list" where
  "actors_info =
     [(''walker.*'', [''yaw'' \<mapsto> 270, ''k'' \<mapsto> 10, ''j'' \<mapsto> 5, ''z'' \<mapsto> 0]),
      (''static.prop.container'', [''yaw'' \<mapsto> 90, ''k'' \<mapsto> 25, ''j'' \<mapsto> 0, ''z'' \<mapsto> 0]),
      (''static.prop.shoppingcart'', [''yaw'' \<mapsto> 0, ''k'' \<mapsto> 2, ''j'' \<mapsto> 15, ''z'' \<mapsto> 2])]"

text \<open>
  The loop \<^verbatim>\<open>for actor_name, actor_transform in actors_info.items()\<close>; each round reads
  \<^verbatim>\<open>self._reference_transform\<close> anew. An exception ends the loop.
\<close>

fun spawn_each ::
  "('n, 'p::numeral) library \<Rightarrow> 'n provider \<Rightarrow> (string \<times> 'p placement_dict) list
     \<Rightarrow> 'n scenario \<Rightarrow> error + 'n scenario" where
  "spawn_each lib request [] s = Inr s"
| "spawn_each lib request ((actor_name, actor_transform) # rest) s =
     ebind (spawn_actor lib request actor_name actor_transform (reference_transform s) s)
       (spawn_each lib request rest)"

definition initialize_actors ::
  "('n, 'p::{zero,numeral}) library \<Rightarrow> 'n provider \<Rightarrow> 'n scenario \<Rightarrow> error + 'n scenario" where
  "initialize_actors lib request s = spawn_each lib request actors_info s"

subsection \<open>\<^verbatim>\<open>_create_behavior\<close>\<close>

text \<open>
  The nodes of the behaviour-tree library that the scenario builds, with the arguments
  it gives them. A composite has a name and its children in order; the default name of
  a sequence is \<^verbatim>\<open>Sequence\<close>.
\<close>

datatype parallel_policy = SUCCESS_ON_ALL | SUCCESS_ON_ONE

datatype behaviour =
    Idle real
  | InTimeToArrivalToVehicle actor actor real
  | KeepVelocity actor real string
  | DriveDistance actor real string
  | StopVehicle actor real string
  | Sequence string "behaviour list"
  | Parallel parallel_policy string "behaviour list"

text \<open>\<^verbatim>\<open>composite.add_child(child)\<close>: only a composite has the method.\<close>

definition add_child :: "behaviour \<Rightarrow> behaviour \<Rightarrow> error + behaviour" where
  "add_child parent child =
     (case parent of
        Sequence n cs \<Rightarrow> Inr (Sequence n (cs @ [child]))
      | Parallel p n cs \<Rightarrow> Inr (Parallel p n (cs @ [child]))
      | _ \<Rightarrow> Inl (AttributeError ''add_child''))"

definition create_behavior :: "'n scenario \<Rightarrow> error + behaviour" where
  "create_behavior s =
     (let ego_stand = Idle 60;
          dist_to_trigger = (5::real);
          dist_actor_travel = (10::real);
          time_to_reach = (5::real);
          scenario_sequence = Sequence ''Sequence'' []
      in
      ebind (getindex (ego_vehicles s) 0) (\<lambda>ego.
      ebind (getindex (other_actors s) 0) (\<lambda>walker.
      let start_condition = InTimeToArrivalToVehicle ego walker time_to_reach in
      ebind (getindex (other_actors s) 0) (\<lambda>walker.
      let actor_velocity =
            KeepVelocity walker (other_actor_target_velocity s) ''walker velocity'' in
      ebind (getindex (other_actors s) 0) (\<lambda>walker.
      let actor_drive = DriveDistance walker dist_actor_travel ''walker drive distance'' in
      ebind (getindex (other_actors s) 0) (\<lambda>walker.
      let actor_stop_crossed_lane =
            StopVehicle walker (other_actor_max_brake s) ''walker stop'';
          scenario_sequence = Sequence ''Sequence'' [];
          keep_velocity = Parallel SUCCESS_ON_ONE ''keep velocity other'' []
      in
      ebind (add_child scenario_sequence start_condition) (\<lambda>scenario_sequence.
      ebind (add_child scenario_sequence actor_velocity) (\<lambda>scenario_sequence.
      ebind (add_child scenario_sequence actor_drive) (\<lambda>scenario_sequence.
      ebind (add_child scenario_sequence actor_stop_crossed_lane) (\<lambda>scenario_sequence.
      ebind (add_child scenario_sequence ego_stand) (\<lambda>scenario_sequence.
        Inr scenario_sequence)))))))))))"

text \<open>
  The tree of the specification:
  SEQUENCE[ trigger-gate, PARALLEL\_SUCCEED\_ON\_FIRST[ velocity-apply, distance-track ],
  stop, idle ].
\<close>

definition specified_tree ::
  "behaviour \<Rightarrow> behaviour \<Rightarrow> behaviour \<Rightarrow> behaviour \<Rightarrow> behaviour \<Rightarrow> string \<Rightarrow> string
     \<Rightarrow> behaviour" where
  "specified_tree trigger velocity distance stop idle n m =
     Sequence n [trigger, Parallel SUCCESS_ON_ONE m [velocity, distance], stop, idle]"

subsection \<open>\<^verbatim>\<open>_create_test_criteria\<close>\<close>

datatype criterion = CollisionTest actor

definition create_test_criteria :: "'n scenario \<Rightarrow> error + criterion list" where
  "create_test_criteria s =
     (let criteria = [] in
      ebind (getindex (ego_vehicles s) 0) (\<lambda>ego.
      let collision_criterion = CollisionTest ego;
          criteria = criteria @ [collision_criterion]
      in Inr criteria))"

section \<open>The arithmetic of IEEE 754 as the library\<close>

text \<open>
  The fields of the simulator library are binary32 numbers and a Python float is a
  binary64 number; a result is rounded to the nearest number of the format, a tie to the
  one with the even last digit, and is infinite when that number is beyond the format.
  A value is \<open>Finite x\<close>, with \<open>x\<close> the real number it stands for, or \<open>NonFinite\<close>, which
  stands for the infinities and for NaN: the sums and products below take one of them to
  one of them, so the model does not tell them apart. Nor does it tell the two zeros
  apart.
\<close>

datatype fp = Finite real | NonFinite

definition round_half_even :: "real \<Rightarrow> int" where
  "round_half_even x =
     (let f = \<lfloor>x\<rfloor>; r = x - of_int f
      in if r < 1 / 2 then f else if 1 / 2 < r then f + 1 else if even f then f else f + 1)"

text \<open>
  The exponent of the last digit of \<open>x\<close> in a format of \<open>p\<close> digits whose normal numbers
  start at \<open>2 powi emin\<close> (below, the digits are those of the subnormal numbers).
\<close>

definition quantum :: "nat \<Rightarrow> int \<Rightarrow> real \<Rightarrow> int" where
  "quantum p emin x = max (\<lfloor>log 2 \<bar>x\<bar>\<rfloor>) emin - int p + 1"

definition round_to :: "nat \<Rightarrow> int \<Rightarrow> real \<Rightarrow> real" where
  "round_to p emin x =
     (if x = 0 then 0
      else of_int (round_half_even (x / 2 powi quantum p emin x)) * 2 powi quantum p emin x)"

definition binary32 :: "real \<Rightarrow> fp" where
  "binary32 x =
     (let r = round_to 24 (- 126) x in if 2 ^ 128 \<le> \<bar>r\<bar> then NonFinite else Finite r)"

definition binary64 :: "real \<Rightarrow> fp" where
  "binary64 x =
     (let r = round_to 53 (- 1022) x in if 2 ^ 1024 \<le> \<bar>r\<bar> then NonFinite else Finite r)"

text \<open>The product and the sum of two binary32 numbers, as the library computes them.\<close>

definition ieee_mul :: "fp \<Rightarrow> fp \<Rightarrow> fp" where
  "ieee_mul a b =
     (case a of NonFinite \<Rightarrow> NonFinite
      | Finite x \<Rightarrow> (case b of NonFinite \<Rightarrow> NonFinite | Finite y \<Rightarrow> binary32 (x * y)))"

definition ieee_add :: "fp \<Rightarrow> fp \<Rightarrow> fp" where
  "ieee_add a b =
     (case a of NonFinite \<Rightarrow> NonFinite
      | Finite x \<Rightarrow> (case b of NonFinite \<Rightarrow> NonFinite | Finite y \<Rightarrow> binary32 (x + y)))"

text \<open>
  A Python integer where a float is expected: Python converts it to a binary64 number,
  and raises \<^verbatim>\<open>OverflowError\<close> when it is too large for one; the library then narrows
  the number to binary32.
\<close>

definition int_as_float :: "int \<Rightarrow> error + fp" where
  "int_as_float i =
     (case binary64 (of_int i) of
        NonFinite \<Rightarrow> Inl OverflowError
      | Finite d \<Rightarrow> Inr (binary32 d))"

text \<open>
  A field plus a Python integer, assigned to a field: the field's value is a Python
  float, the integer is converted to one, the sum is a binary64 number, and the
  assignment narrows it to binary32.
\<close>

definition ieee_field_sum :: "fp \<Rightarrow> int \<Rightarrow> error + fp" where
  "ieee_field_sum a i =
     (case binary64 (of_int i) of
        NonFinite \<Rightarrow> Inl OverflowError
      | Finite d \<Rightarrow>
          Inr (case a of
                 NonFinite \<Rightarrow> NonFinite
               | Finite x \<Rightarrow>
                   (case binary64 (x + d) of NonFinite \<Rightarrow> NonFinite | Finite s \<Rightarrow> binary32 s)))"

text \<open>
  The library with this arithmetic, for Python integers; its forward vector stays a
  parameter.
\<close>

definition ieee_library :: "(fp rotation \<Rightarrow> fp vector3d) \<Rightarrow> (fp, int) library" where
  "ieee_library fwd =
     \<lparr>forward_vector = fwd, as_float = int_as_float, fmul = ieee_mul, fadd = ieee_add,
      field_sum = ieee_field_sum\<rparr>"

text \<open>A value that a field of the library can hold.\<close>

definition binary32_value :: "fp \<Rightarrow> bool" where
  "binary32_value a = (case a of NonFinite \<Rightarrow> True | Finite x \<Rightarrow> binary32 x = Finite x)"

definition binary32_vector :: "fp vector3d \<Rightarrow> bool" where
  "binary32_vector v = (binary32_value (vx v) \<and> binary32_value (vy v) \<and> binary32_value (vz v))"

definition finite_vector :: "fp vector3d \<Rightarrow> bool" where
  "finite_vector v = (vx v \<noteq> NonFinite \<and> vy v \<noteq> NonFinite \<and> vz v \<noteq> NonFinite)"

text \<open>A yaw lies in the range from \<open>lo\<close> to \<open>hi\<close>.\<close>

definition yaw_in_range :: "real \<Rightarrow> real \<Rightarrow> fp \<Rightarrow> bool" where
  "yaw_in_range lo hi a = (case a of NonFinite \<Rightarrow> False | Finite x \<Rightarrow> lo \<le> x \<and> x \<le> hi)"

subsection \<open>A concrete scenario\<close>

text \<open>
  The examples reach two rotations only, both of pitch 0: yaw 0 and yaw 90. There the
  library's forward vectors are \<open>(1, 0, 0)\<close> and \<open>(c, 1, 0)\<close>, where \<open>c\<close>, about
  \<open>-4.371139e-08\<close>, is the binary32 cosine of the binary32 number nearest to a quarter
  turn. The function below answers with these two vectors; it stands in for the
  library's forward vector in the examples and is no account of it at any other
  rotation, where it answers with the first of them.
\<close>

definition quarter_cosine :: real where
  "quarter_cosine = - 12303662 / 2 ^ 48"

definition forward_on_axes :: "fp rotation \<Rightarrow> fp vector3d" where
  "forward_on_axes r =
     (if yaw r = Finite 90
      then \<lparr>vx = Finite quarter_cosine, vy = Finite 1, vz = Finite 0\<rparr>
      else \<lparr>vx = Finite 1, vy = Finite 0, vz = Finite 0\<rparr>)"

definition pose :: "real \<Rightarrow> real \<Rightarrow> real \<Rightarrow> real \<Rightarrow> fp transform" where
  "pose x y z w =
     \<lparr>location = \<lparr>vx = Finite x, vy = Finite y, vz = Finite z\<rparr>,
      rotation = \<lparr>pitch = Finite 0, yaw = Finite w, roll = Finite 0\<rparr>\<rparr>"

text \<open>
  The ego vehicle, actor 0, stands at the origin and faces along the first axis; the
  scenario owns no actor yet; the simulator delivers every actor it is asked for and
  numbers the handles by the calls made so far.
\<close>

definition origin_pose :: "fp transform" where
  "origin_pose = pose 0 0 0 0"

definition parking_lot :: "fp scenario" where
  "parking_lot =
     \<lparr>objects = [origin_pose], reference_transform = 0, ego_vehicles = [0],
      other_actors = [], other_actor_target_velocity = 4, other_actor_max_brake = 1,
      calls = []\<rparr>"

definition obliging :: "fp provider" where
  "obliging cs actor_name t = Inr (Suc (length cs))"

text \<open>
  The same scenario after two, and after all three, of its actors have been spawned.
  The shopping cart is not at 2 along the first axis: 15 times \<open>c\<close> is added to it, and
  the sum is rounded.
\<close>

definition walker_pose :: "fp transform" where
  "walker_pose = pose 10 5 0 270"

definition container_pose :: "fp transform" where
  "container_pose = pose 25 0 0 90"

definition cart_pose :: "fp transform" where
  "cart_pose = pose (16777210 / 2 ^ 23) 15 2 0"

definition parking_lot_two_spawned :: "fp scenario" where
  "parking_lot_two_spawned =
     \<lparr>objects = [origin_pose, walker_pose, container_pose],
      reference_transform = 0, ego_vehicles = [0], other_actors = [1, 3],
      other_actor_target_velocity = 4, other_actor_max_brake = 1,
      calls = [RequestNewActor ''walker.*'' walker_pose 1, SetSimulatePhysics 1 True,
               RequestNewActor ''static.prop.container'' container_pose 3,
               SetSimulatePhysics 3 True]\<rparr>"

definition parking_lot_ready :: "fp scenario" where
  "parking_lot_ready =
     \<lparr>objects = [origin_pose, walker_pose, container_pose, cart_pose],
      reference_transform = 0, ego_vehicles = [0], other_actors = [1, 3, 5],
      other_actor_target_velocity = 4, other_actor_max_brake = 1,
      calls = [RequestNewActor ''walker.*'' walker_pose 1, SetSimulatePhysics 1 True,
               RequestNewActor ''static.prop.container'' container_pose 3,
               SetSimulatePhysics 3 True,
               RequestNewActor ''static.prop.shoppingcart'' cart_pose 5,
               SetSimulatePhysics 5 True]\<rparr>"

section \<open>Properties\<close>

subsection \<open>The error monad\<close>

lemma ebind_Inl [simp]: "ebind (Inl e) f = Inl e"
  by (simp add: ebind_def)

lemma ebind_Inr [simp]: "ebind (Inr v) f = f v"
  by (simp add: ebind_def)

lemma ebind_InrD: "ebind m f = Inr y \<Longrightarrow> \<exists>x. m = Inr x \<and> f x = Inr y"
  by (cases m) simp_all

lemma ebind_assoc: "ebind (ebind m f) g = ebind m (\<lambda>x. ebind (f x) g)"
  by (cases m) simp_all

subsection \<open>The placement computation against the specification\<close>

text \<open>
  Each statement of lines 91 to 95 works on the transform created last, the object at
  the end of the store.
\<close>

lemma copy_start_valid:
  "start < length h \<Longrightarrow>
   copy_start start h =
     Inr (length h, h @ [\<lparr>location = location (h ! start), rotation = rotation (h ! start)\<rparr>])"
  by (simp add: copy_start_def load_def new_transform_def)

lemma advance_last:
  "advance lib d key (length h) (h @ [t]) =
     ebind (getitem d key) (\<lambda>c.
     ebind (vec_scale lib c (forward_vector lib (rotation t))) (\<lambda>v.
       Inr (h @ [t\<lparr>location := vec_add lib (location t) v\<rparr>])))"
  by (simp add: advance_def load_def store_at_def)

lemma turn_last:
  "turn lib angle (length h) (h @ [t]) =
     ebind (field_sum lib (yaw (rotation t)) angle) (\<lambda>y.
       Inr (h @ [t\<lparr>rotation := (rotation t)\<lparr>yaw := y\<rparr>\<rparr>]))"
  by (simp add: turn_def load_def store_at_def)

lemma set_final_yaw_last:
  "start < length h \<Longrightarrow>
   set_final_yaw lib d start (length h) (h @ [t]) =
     ebind (getitem d ''yaw'') (\<lambda>w.
     ebind (field_sum lib (yaw (rotation (h ! start))) w) (\<lambda>y.
       Inr (h @ [t\<lparr>rotation := (rotation t)\<lparr>yaw := y\<rparr>\<rparr>])))"
  by (simp add: set_final_yaw_def load_def store_at_def nth_append)

lemma lift_last:
  "lift lib d (length h) (h @ [t]) =
     ebind (getitem d ''z'') (\<lambda>dz.
     ebind (field_sum lib (vz (location t)) dz) (\<lambda>z.
       Inr (h @ [t\<lparr>location := (location t)\<lparr>vz := z\<rparr>\<rparr>])))"
  by (simp add: lift_def load_def store_at_def)

lemmas last_steps = copy_start_valid advance_last turn_last set_final_yaw_last lift_last
  ebind_assoc

text \<open>
  Lines 85 to 95 append one object to the store, the placement of the specification, and
  raise what its arithmetic raises.
\<close>

lemma compute_transform_eq:
  assumes "start < length h"
    and "d ''k'' = Some k" and "d ''j'' = Some j" and "d ''z'' = Some z"
    and "d ''yaw'' = Some w"
  shows "compute_transform lib d start h =
           ebind (placement lib (h ! start) k j z w) (\<lambda>t. Inr (length h, h @ [t]))"
  using assms
  by (simp add: compute_transform_def placement_def last_steps getitem_def perp_angle_def
      Let_def)

lemma placed_eq:
  assumes "start < length h"
    and "d ''k'' = Some k" and "d ''j'' = Some j" and "d ''z'' = Some z"
    and "d ''yaw'' = Some w"
  shows "placed lib d start h = placement lib (h ! start) k j z w"
proof -
  have "placed lib d start h =
      ebind (placement lib (h ! start) k j z w) (\<lambda>t. load (h @ [t]) (length h))"
    by (simp add: placed_def compute_transform_eq [OF assms] ebind_assoc)
  also have "\<dots> = ebind (placement lib (h ! start) k j z w) Inr"
    by (simp add: load_def)
  also have "\<dots> = placement lib (h ! start) k j z w"
    by (cases "placement lib (h ! start) k j z w") simp_all
  finally show ?thesis .
qed

text \<open>Conversely, the computation returns only on a valid reference and all four keys.\<close>

lemma compute_transform_InrD:
  assumes "compute_transform lib d start h = Inr r"
  shows "start < length h \<and>
         (\<exists>k j z w. d ''k'' = Some k \<and> d ''j'' = Some j \<and> d ''z'' = Some z \<and> d ''yaw'' = Some w)"
proof -
  have v: "start < length h"
    using assms by (auto simp: compute_transform_def copy_start_def load_def split: if_splits)
  have "d ''k'' \<noteq> None \<and> d ''j'' \<noteq> None \<and> d ''yaw'' \<noteq> None \<and> d ''z'' \<noteq> None"
    using assms v
    by (cases "d ''k''"; cases "d ''j''"; cases "d ''yaw''"; cases "d ''z''")
       (auto simp: compute_transform_def last_steps getitem_def dest!: ebind_InrD)
  with v show ?thesis
    by auto
qed

text \<open>The result depends on the value of the reference transform only.\<close>

lemma placed_value:
  assumes "load h a = Inr r" and "load h' a' = Inr r"
  shows "placed lib d a h = placed lib d a' h'"
proof -
  from assms have v: "a < length h" "a' < length h'" and e: "h ! a = r" "h' ! a' = r"
    by (auto simp: load_def split: if_splits)
  have l: "\<And>g t. load (g @ [t]) (length g) = Inr t"
    by (simp add: load_def)
  show ?thesis
    using v e
    by (cases "d ''k''"; cases "d ''j''"; cases "d ''yaw''"; cases "d ''z''")
       (simp_all add: placed_def compute_transform_def last_steps getitem_def l)
qed

lemma placement_yaw:
  "placement lib reference k j z w = Inr t \<Longrightarrow>
   field_sum lib (yaw (rotation reference)) w = Inr (yaw (rotation t))"
  by (auto simp: placement_def Let_def dest!: ebind_InrD)

subsection \<open>Spawning\<close>

text \<open>
  A call of \<^verbatim>\<open>spawn_actor\<close> that returns has found the reference and the four keys, has
  computed the placement, has been given an actor, and has changed three fields.
\<close>

lemma spawn_actor_InrD:
  assumes "spawn_actor lib request n d start s = Inr s1"
  shows "\<exists>k j z w t a. start < length (objects s)
     \<and> d ''k'' = Some k \<and> d ''j'' = Some j \<and> d ''z'' = Some z \<and> d ''yaw'' = Some w
     \<and> placement lib (objects s ! start) k j z w = Inr t
     \<and> request (calls s) n t = Inr a
     \<and> s1 = s\<lparr>objects := objects s @ [t],
              calls := calls s @ [RequestNewActor n t a, SetSimulatePhysics a True],
              other_actors := other_actors s @ [a]\<rparr>"
proof -
  from assms obtain r where r: "compute_transform lib d start (objects s) = Inr r"
    by (cases "compute_transform lib d start (objects s)") (simp_all add: spawn_actor_def)
  from compute_transform_InrD [OF r] obtain k j z w where
    v: "start < length (objects s)" and
    ks: "d ''k'' = Some k" "d ''j'' = Some j" "d ''z'' = Some z" "d ''yaw'' = Some w"
    by blast
  from r obtain t where t: "placement lib (objects s ! start) k j z w = Inr t"
    by (auto simp: compute_transform_eq [OF v ks] dest: ebind_InrD)
  from assms obtain a where "request (calls s) n t = Inr a"
    by (cases "request (calls s) n t")
       (simp_all add: spawn_actor_def compute_transform_eq [OF v ks] t load_def)
  with assms v ks t show ?thesis
    by (auto simp: spawn_actor_def compute_transform_eq [OF v ks] load_def)
qed

lemma spawn_actor_appends:
  assumes "spawn_actor lib request n d start s = Inr s1"
  shows "\<exists>t a. placed lib d start (objects s) = Inr t
           \<and> request (calls s) n t = Inr a
           \<and> objects s1 = objects s @ [t]
           \<and> calls s1 = calls s @ [RequestNewActor n t a, SetSimulatePhysics a True]
           \<and> other_actors s1 = other_actors s @ [a]
           \<and> reference_transform s1 = reference_transform s
           \<and> ego_vehicles s1 = ego_vehicles s"
proof -
  from spawn_actor_InrD [OF assms] obtain k j z w t a where
    v: "start < length (objects s)" and
    ks: "d ''k'' = Some k" "d ''j'' = Some j" "d ''z'' = Some z" "d ''yaw'' = Some w" and
    t: "placement lib (objects s ! start) k j z w = Inr t" and
    a: "request (calls s) n t = Inr a" and
    s1: "s1 = s\<lparr>objects := objects s @ [t],
              calls := calls s @ [RequestNewActor n t a, SetSimulatePhysics a True],
              other_actors := other_actors s @ [a]\<rparr>"
    by blast
  show ?thesis
    using a t by (simp add: s1 placed_eq [OF v ks])
qed

text \<open>The loop over a list of entries is the loop over its front, then over its rest.\<close>

lemma spawn_each_append:
  "spawn_each lib request (xs @ ys) s =
     ebind (spawn_each lib request xs s) (spawn_each lib request ys)"
proof (induction xs arbitrary: s)
  case Nil
  show ?case by simp
next
  case (Cons x xs)
  obtain n d where x: "x = (n, d)" by (cases x)
  show ?case
    by (cases "spawn_actor lib request n d (reference_transform s) s")
       (simp_all add: x Cons.IH)
qed

subsection \<open>The behaviour tree\<close>

text \<open>
  With an ego vehicle and a walker at hand, the tree is a sequence of five leaves: the
  parallel composite \<^verbatim>\<open>keep velocity other\<close> is built and then left out. Whatever the
  scenario, the method never returns the tree of the specification.
\<close>

lemma create_behavior_eq:
  assumes "ego_vehicles s = ego # others" and "other_actors s = walker # props"
  shows "create_behavior s =
     Inr (Sequence ''Sequence''
       [InTimeToArrivalToVehicle ego walker 5,
        KeepVelocity walker (other_actor_target_velocity s) ''walker velocity'',
        DriveDistance walker 10 ''walker drive distance'',
        StopVehicle walker (other_actor_max_brake s) ''walker stop'',
        Idle 60])"
  using assms by (simp add: create_behavior_def getindex_def add_child_def Let_def)

lemma create_behavior_never_specified:
  "create_behavior s \<noteq> Inr (specified_tree trigger velocity distance stop idle n m)"
  by (simp add: create_behavior_def getindex_def add_child_def Let_def specified_tree_def)

subsection \<open>Rounding to a format\<close>

text \<open>
  A number with at most \<open>p\<close> digits above the smallest exponent of the format is a number
  of the format: rounding leaves it as it is.
\<close>

lemma rhe_int [simp]: "round_half_even (of_int n) = n"
  by (simp add: round_half_even_def)

lemma floor_log2: "2 powi e \<le> \<bar>x\<bar> \<Longrightarrow> \<bar>x\<bar> < 2 powi (e + 1) \<Longrightarrow> \<lfloor>log 2 \<bar>x\<bar>\<rfloor> = e"
proof -
  assume a: "2 powi e \<le> \<bar>x\<bar>" and b: "\<bar>x\<bar> < 2 powi (e + 1)"
  have p: "0 < \<bar>x\<bar>" using a by (smt (verit) zero_less_power_int)
  have "(2::real) powr of_int e = 2 powi e" "(2::real) powr (of_int e + 1) = 2 powi (e + 1)"
    using powr_real_of_int' [of 2 e] powr_real_of_int' [of 2 "e + 1"] by simp_all
  with a b p show ?thesis
    by (simp add: floor_log_eq_powr_iff)
qed

lemma floor_log2_less:
  assumes "x \<noteq> 0" and "\<bar>x\<bar> < 2 powi n"
  shows "\<lfloor>log 2 \<bar>x\<bar>\<rfloor> < n"
proof -
  have p: "0 < \<bar>x\<bar>" using assms(1) by simp
  have "(2::real) powr of_int n = 2 powi n"
    using powr_real_of_int' [of 2 n] by simp
  with assms(2) have "\<bar>x\<bar> < 2 powr of_int n" by simp
  with p have "log 2 \<bar>x\<bar> < of_int n"
    by (simp add: log_less_iff)
  then show ?thesis
    by (simp add: floor_less_iff)
qed

lemma round_to_representable:
  assumes "\<bar>m\<bar> < 2 ^ p" and "emin - int p + 1 \<le> q"
  shows "round_to p emin (of_int m * 2 powi q) = of_int m * 2 powi q"
proof (cases "m = 0")
  case True
  then show ?thesis by (simp add: round_to_def)
next
  case False
  let ?x = "of_int m * 2 powi q :: real"
  let ?Q = "quantum p emin ?x"
  have x0: "?x \<noteq> 0" using False by simp
  have "\<bar>?x\<bar> = of_int \<bar>m\<bar> * 2 powi q"
    by (simp add: abs_mult)
  also have "\<dots> < 2 ^ p * 2 powi q"
  proof -
    have "(of_int \<bar>m\<bar> :: real) < of_int (2 ^ p)" using assms(1) by (simp only: of_int_less_iff)
    then show ?thesis by simp
  qed
  also have "\<dots> = 2 powi (int p + q)"
    by (simp add: power_int_add)
  finally have "\<lfloor>log 2 \<bar>?x\<bar>\<rfloor> < int p + q"
    using floor_log2_less [OF x0] by simp
  with assms(2) have Q: "?Q \<le> q"
    by (simp add: quantum_def)
  then obtain d where d: "q = ?Q + int d"
    by (metis nonneg_int_cases diff_ge_0_iff_ge add_diff_cancel_left' add.commute diff_add_cancel)
  have "?x / 2 powi ?Q = of_int m * 2 powi (q - ?Q)"
    by (simp add: power_int_diff)
  also have "\<dots> = of_int (m * 2 ^ d)"
  proof -
    have "q - ?Q = int d" using d by linarith
    then show ?thesis by (simp only: power_int_of_nat of_int_mult of_int_power of_int_numeral)
  qed
  finally have "round_half_even (?x / 2 powi ?Q) = m * 2 ^ d"
    by (simp only: rhe_int)
  then have "round_to p emin ?x = of_int (m * 2 ^ d) * 2 powi ?Q"
    using x0 by (simp add: round_to_def)
  also have "\<dots> = of_int m * 2 powi (int d + ?Q)"
    by (simp add: power_int_add)
  also have "\<dots> = ?x"
  proof -
    have "int d + ?Q = q" using d by linarith
    then show ?thesis by (simp only:)
  qed
  finally show ?thesis .
qed

lemma abs_less_next_power:
  assumes "x \<noteq> 0"
  shows "\<bar>x\<bar> < 2 powi (\<lfloor>log 2 \<bar>x\<bar>\<rfloor> + 1)"
proof -
  have p: "0 < \<bar>x\<bar>" using assms by simp
  have "log 2 \<bar>x\<bar> < of_int (\<lfloor>log 2 \<bar>x\<bar>\<rfloor> + 1)"
    by linarith
  with p have "\<bar>x\<bar> < 2 powr of_int (\<lfloor>log 2 \<bar>x\<bar>\<rfloor> + 1)"
    by (simp only: log_less_iff [of 2 "\<bar>x\<bar>", symmetric])
  then show ?thesis
    using powr_real_of_int' [of 2 "\<lfloor>log 2 \<bar>x\<bar>\<rfloor> + 1"] by simp
qed

lemma round_to_fixed_wider:
  assumes "round_to p emin x = x" and "p \<le> p'" and "emin' \<le> emin"
  shows "round_to p' emin' x = x"
proof (cases "x = 0")
  case True
  then show ?thesis by (simp add: round_to_def)
next
  case False
  let ?E = "\<lfloor>log 2 \<bar>x\<bar>\<rfloor>"
  let ?Q = "quantum p emin x"
  let ?M = "round_half_even (x / 2 powi ?Q)"
  have x: "x = of_int ?M * 2 powi ?Q"
    using assms(1) False by (simp add: round_to_def)
  have Q1: "emin' - int p' + 1 \<le> ?Q"
    using assms(2,3) by (simp add: quantum_def)
  have Q2: "?E + 1 - ?Q \<le> int p"
    by (simp add: quantum_def)
  have "\<bar>of_int ?M :: real\<bar> = \<bar>x\<bar> / 2 powi ?Q"
    by (subst (2) x) (simp add: abs_mult)
  also have "\<dots> < 2 powi (?E + 1) / 2 powi ?Q"
    using abs_less_next_power [OF False] by (simp add: divide_strict_right_mono)
  also have "\<dots> = 2 powi (?E + 1 - ?Q)"
    by (simp add: power_int_diff)
  also have "\<dots> \<le> 2 powi int p"
    using Q2 by (intro power_int_increasing) simp_all
  also have "\<dots> \<le> 2 ^ p'"
    using assms(2) by simp
  finally have "\<bar>of_int ?M :: real\<bar> < of_int (2 ^ p')"
    by simp
  then have M: "\<bar>?M\<bar> < 2 ^ p'"
    by (metis of_int_abs of_int_less_iff)
  from round_to_representable [OF M Q1] x show ?thesis
    by simp
qed

text \<open>
  Rounding a given number: with the binary exponent \<open>e\<close> of \<open>x\<close> at hand, the result is
  the nearest multiple \<open>m\<close> of the last digit.
\<close>

lemma quantum_eq:
  "2 powi e \<le> \<bar>x\<bar> \<Longrightarrow> \<bar>x\<bar> < 2 powi (e + 1) \<Longrightarrow> quantum p emin x = max e emin - int p + 1"
  by (simp add: quantum_def floor_log2)

lemma round_to_eval:
  assumes "2 powi e \<le> \<bar>x\<bar>" and "\<bar>x\<bar> < 2 powi (e + 1)"
    and "q = max e emin - int p + 1"
    and "round_half_even (x / 2 powi q) = m"
    and "y = of_int m * 2 powi q"
  shows "round_to p emin x = y"
proof -
  have "x \<noteq> 0" using assms(1) by (smt (verit) zero_less_power_int abs_zero)
  with assms show ?thesis
    by (simp add: round_to_def quantum_eq [OF assms(1,2)])
qed

lemma binary32_eval:
  assumes "2 powi e \<le> \<bar>x\<bar>" and "\<bar>x\<bar> < 2 powi (e + 1)"
    and "round_half_even (x / 2 powi (max e (- 126) - 23)) = m"
    and "y = of_int m * 2 powi (max e (- 126) - 23)"
    and "\<bar>y\<bar> < 2 ^ 128"
  shows "binary32 x = Finite y"
proof -
  have "round_to 24 (- 126) x = y"
    by (rule round_to_eval [OF assms(1,2) _ assms(3,4)]) simp
  with assms(5) show ?thesis
    by (simp add: binary32_def)
qed

lemma binary64_eval:
  assumes "2 powi e \<le> \<bar>x\<bar>" and "\<bar>x\<bar> < 2 powi (e + 1)"
    and "round_half_even (x / 2 powi (max e (- 1022) - 52)) = m"
    and "y = of_int m * 2 powi (max e (- 1022) - 52)"
    and "\<bar>y\<bar> < 2 ^ 1024"
  shows "binary64 x = Finite y"
proof -
  have "round_to 53 (- 1022) x = y"
    by (rule round_to_eval [OF assms(1,2) _ assms(3,4)]) simp
  with assms(5) show ?thesis
    by (simp add: binary64_def)
qed

text \<open>Whole numbers of at most 24 (53) digits are binary32 (binary64) numbers.\<close>

lemma binary32_int: "\<bar>i\<bar> < 2 ^ 24 \<Longrightarrow> binary32 (of_int i) = Finite (of_int i)"
proof -
  assume a: "\<bar>i\<bar> < 2 ^ 24"
  have "round_to 24 (- 126) (of_int i * 2 powi 0) = of_int i * 2 powi 0"
    by (rule round_to_representable [OF a]) simp
  moreover have "\<bar>of_int i :: real\<bar> < 2 ^ 128"
  proof -
    have "\<bar>of_int i :: real\<bar> < of_int (2 ^ 24)" using a by (metis of_int_abs of_int_less_iff)
    then show ?thesis by simp
  qed
  ultimately show ?thesis
    by (simp add: binary32_def)
qed

lemma binary64_int: "\<bar>i\<bar> < 2 ^ 53 \<Longrightarrow> binary64 (of_int i) = Finite (of_int i)"
proof -
  assume a: "\<bar>i\<bar> < 2 ^ 53"
  have "round_to 53 (- 1022) (of_int i * 2 powi 0) = of_int i * 2 powi 0"
    by (rule round_to_representable [OF a]) simp
  moreover have "\<bar>of_int i :: real\<bar> < 2 ^ 1024"
  proof -
    have "\<bar>of_int i :: real\<bar> < of_int (2 ^ 53)" using a by (metis of_int_abs of_int_less_iff)
    then show ?thesis by simp
  qed
  ultimately show ?thesis
    by (simp add: binary64_def)
qed

lemma binary32_0 [simp]: "binary32 0 = Finite 0"
  by (simp add: binary32_def round_to_def)

lemma binary64_0 [simp]: "binary64 0 = Finite 0"
  by (simp add: binary64_def round_to_def)

lemma binary32_1 [simp]: "binary32 1 = Finite 1"
  using binary32_int [of 1] by simp

lemma binary32_numeral:
  "(numeral n :: int) < 2 ^ 24 \<Longrightarrow> binary32 (numeral n) = Finite (numeral n)"
  using binary32_int [of "numeral n"] by simp

lemma binary64_numeral:
  "(numeral n :: int) < 2 ^ 53 \<Longrightarrow> binary64 (numeral n) = Finite (numeral n)"
  using binary64_int [of "numeral n"] by simp

lemma binary64_small:
  assumes "(numeral n :: int) < 2 ^ 24"
  shows "binary64 (numeral n) = Finite (numeral n)"
proof -
  from assms have "(numeral n :: int) < 2 ^ 53" by (rule less_trans) simp
  then show ?thesis by (rule binary64_numeral)
qed

text \<open>A binary32 number is a binary64 number.\<close>

lemma binary32_is_binary64:
  assumes "binary32 x = Finite x"
  shows "binary64 x = Finite x"
proof -
  from assms have r: "round_to 24 (- 126) x = x" and b: "\<bar>x\<bar> < 2 ^ 128"
    by (auto simp: binary32_def Let_def split: if_splits)
  have "round_to 53 (- 1022) x = x"
    by (rule round_to_fixed_wider [OF r]) simp_all
  moreover have "\<bar>x\<bar> < 2 ^ 1024"
    using b by (rule less_trans) simp
  ultimately show ?thesis
    by (simp add: binary64_def)
qed

subsection \<open>The operations on whole numbers\<close>

lemma int_as_float_0 [simp]: "int_as_float 0 = Inr (Finite 0)"
  by (simp add: int_as_float_def)

lemma int_as_float_numeral:
  assumes "(numeral n :: int) < 2 ^ 24"
  shows "int_as_float (numeral n) = Inr (Finite (numeral n))"
  by (simp only: int_as_float_def of_int_numeral binary64_small [OF assms]
      binary32_numeral [OF assms] fp.case)

lemma ieee_mul_0_right [simp]: "ieee_mul (Finite x) (Finite 0) = Finite 0"
  by (simp add: ieee_mul_def)

lemma ieee_mul_0_left [simp]: "ieee_mul (Finite 0) (Finite y) = Finite 0"
  by (simp add: ieee_mul_def)

lemma ieee_mul_1_numeral:
  assumes "(numeral n :: int) < 2 ^ 24"
  shows "ieee_mul (Finite 1) (Finite (numeral n)) = Finite (numeral n)"
  by (simp only: ieee_mul_def fp.case mult_1 binary32_numeral [OF assms])

lemma ieee_add_0_0 [simp]: "ieee_add (Finite 0) (Finite 0) = Finite 0"
  by (simp add: ieee_add_def)

lemma ieee_add_0_numeral:
  assumes "(numeral n :: int) < 2 ^ 24"
  shows "ieee_add (Finite 0) (Finite (numeral n)) = Finite (numeral n)"
  by (simp only: ieee_add_def fp.case add_0 binary32_numeral [OF assms])

lemma ieee_add_numeral_0:
  assumes "(numeral n :: int) < 2 ^ 24"
  shows "ieee_add (Finite (numeral n)) (Finite 0) = Finite (numeral n)"
  by (simp only: ieee_add_def fp.case add_0_right binary32_numeral [OF assms])

lemma ieee_add_numerals:
  assumes "(numeral (m + n) :: int) < 2 ^ 24"
  shows "ieee_add (Finite (numeral m)) (Finite (numeral n)) = Finite (numeral (m + n))"
  by (simp only: ieee_add_def fp.case numeral_add [symmetric] binary32_numeral [OF assms])

lemma ieee_field_sum_0_0 [simp]: "ieee_field_sum (Finite 0) 0 = Inr (Finite 0)"
  by (simp add: ieee_field_sum_def)

lemma ieee_field_sum_0_numeral:
  assumes "(numeral n :: int) < 2 ^ 24"
  shows "ieee_field_sum (Finite 0) (numeral n) = Inr (Finite (numeral n))"
  by (simp only: ieee_field_sum_def of_int_numeral fp.case add_0 binary64_small [OF assms]
      binary32_numeral [OF assms])

lemma ieee_field_sum_numerals:
  assumes "(numeral (m + n) :: int) < 2 ^ 24"
  shows "ieee_field_sum (Finite (numeral m)) (numeral n) = Inr (Finite (numeral (m + n)))"
proof -
  have "(numeral n :: int) < numeral m + numeral n"
    by (simp only: less_add_same_cancel2 zero_less_numeral)
  also have "\<dots> = numeral (m + n)"
    by (simp only: numeral_add)
  also from assms have "\<dots> < 2 ^ 53"
    by (rule less_trans) simp
  finally have n: "binary64 (numeral n) = Finite (numeral n)"
    by (rule binary64_numeral)
  show ?thesis
    by (simp only: ieee_field_sum_def of_int_numeral fp.case n numeral_add [symmetric]
        binary64_small [OF assms] binary32_numeral [OF assms])
qed

lemmas whole_numbers = int_as_float_numeral ieee_mul_1_numeral ieee_add_0_numeral
  ieee_add_numeral_0 ieee_add_numerals ieee_field_sum_0_numeral ieee_field_sum_numerals

subsection \<open>Rounding at work\<close>

text \<open>
  A factor of \<open>2 ^ 24 + 1\<close> reaches the library as \<open>2 ^ 24\<close>; a yaw of \<open>1 / 2 ^ 16\<close> plus
  270 is stored as 270.
\<close>

lemma factor_is_rounded: "int_as_float 16777217 = Inr (Finite 16777216)"
proof -
  have "binary32 16777217 = Finite 16777216"
    by (rule binary32_eval [where e = 24 and m = 8388608])
       (simp_all add: round_half_even_def Let_def)
  then show ?thesis
    by (simp add: int_as_float_def binary64_numeral)
qed

lemma stored_yaw_is_rounded: "ieee_field_sum (Finite (1 / 2 ^ 16)) 270 = Inr (Finite 270)"
proof -
  have a: "binary64 (1 / 2 ^ 16 + 270) = Finite (270 + 1 / 2 ^ 16)"
    by (rule binary64_eval [where e = 8 and m = "270 * 2 ^ 44 + 2 ^ 28"])
       (simp_all add: round_half_even_def Let_def)
  have b: "binary32 (270 + 1 / 2 ^ 16) = Finite 270"
    by (rule binary32_eval [where e = 8 and m = "270 * 2 ^ 15"])
       (simp_all add: round_half_even_def Let_def)
  have c: "binary64 270 = Finite 270"
    by (simp add: binary64_numeral)
  show ?thesis
    by (simp only: ieee_field_sum_def of_int_numeral a b c fp.case)
qed

subsection \<open>Zero offsets, and sums that return\<close>

lemma ieee_mul_zero: "a \<noteq> NonFinite \<Longrightarrow> ieee_mul a (Finite 0) = Finite 0"
  by (cases a) simp_all

lemma ieee_add_zero: "binary32_value a \<Longrightarrow> ieee_add a (Finite 0) = a"
  by (cases a) (simp_all add: ieee_add_def binary32_value_def)

lemma ieee_field_sum_zero: "binary32_value a \<Longrightarrow> ieee_field_sum a 0 = Inr a"
  by (cases a) (simp_all add: ieee_field_sum_def binary32_value_def binary32_is_binary64)

lemma vec_scale_zero:
  "finite_vector v \<Longrightarrow>
   vec_scale (ieee_library fwd) 0 v = Inr \<lparr>vx = Finite 0, vy = Finite 0, vz = Finite 0\<rparr>"
  by (simp add: vec_scale_def ieee_library_def finite_vector_def ieee_mul_zero)

lemma vec_add_zero:
  "binary32_vector p \<Longrightarrow>
   vec_add (ieee_library fwd) p \<lparr>vx = Finite 0, vy = Finite 0, vz = Finite 0\<rparr> = p"
  by (simp add: vec_add_def ieee_library_def binary32_vector_def ieee_add_zero)

text \<open>
  One advance by a zero offset leaves the store as it was: the product is the zero
  vector when the forward vector is finite, and adding it changes no coordinate.
\<close>

lemma advance_zero_offset:
  assumes "load h transform = Inr t" and "actor_transform key = Some 0"
    and "binary32_vector (location t)" and "finite_vector (fwd (rotation t))"
  shows "advance (ieee_library fwd) actor_transform key transform h = Inr h"
proof -
  from assms(1) have v: "transform < length h" and t: "h ! transform = t"
    by (auto simp: load_def split: if_splits)
  have f: "forward_vector (ieee_library fwd) = fwd"
    by (simp add: ieee_library_def)
  from v t show ?thesis
    by (auto simp add: advance_def assms(1,2) getitem_def f vec_scale_zero [OF assms(4)]
        vec_add_zero [OF assms(3)] store_at_def)
qed

text \<open>
  A sum with a Python integer that converts to a float returns; so does the placement
  when its four offsets convert.
\<close>

lemma ieee_field_sum_Inr:
  "binary64 (of_int i) = Finite d \<Longrightarrow>
   ieee_field_sum a i =
     Inr (case a of NonFinite \<Rightarrow> NonFinite
          | Finite x \<Rightarrow>
              (case binary64 (x + d) of NonFinite \<Rightarrow> NonFinite | Finite s \<Rightarrow> binary32 s))"
  by (simp add: ieee_field_sum_def)

lemma placement_returns:
  assumes "int_as_float k = Inr fk" and "int_as_float j = Inr fj"
    and "binary64 (of_int z) = Finite dz" and "binary64 (of_int w) = Finite dw"
  shows "\<exists>t. placement (ieee_library fwd) reference k j z w = Inr t"
proof -
  have q: "binary64 (of_int 90) = Finite 90"
    by (simp add: binary64_numeral)
  show ?thesis
    by (simp add: placement_def Let_def vec_scale_def ieee_library_def assms(1,2)
        ieee_field_sum_Inr [OF q] ieee_field_sum_Inr [OF assms(3)]
        ieee_field_sum_Inr [OF assms(4)])
qed

subsection \<open>The concrete scenario\<close>

text \<open>
  The walker's 5 units sideways add \<open>5 * c\<close> to the 10 along the first axis, and the sum
  rounds back to 10; the cart's 15 units sideways take the 2 along the first axis to
  \<open>16777210 / 2 ^ 23\<close>, about 1.9999993.
\<close>

lemma walker_sideways:
  "ieee_add (Finite 10) (ieee_mul (Finite quarter_cosine) (Finite 5)) = Finite 10"
proof -
  have a: "binary32 (quarter_cosine * 5) = Finite (- 15379578 / 2 ^ 46)"
    unfolding quarter_cosine_def
    by (rule binary32_eval [where e = "- 23" and m = "- 15379578"])
       (simp_all add: round_half_even_def Let_def)
  have b: "binary32 (10 + - 15379578 / 2 ^ 46) = Finite 10"
    by (rule binary32_eval [where e = 3 and m = 10485760])
       (simp_all add: round_half_even_def Let_def)
  show ?thesis
    by (simp only: ieee_add_def ieee_mul_def fp.case a b)
qed

lemma cart_sideways:
  "ieee_add (Finite 2) (ieee_mul (Finite quarter_cosine) (Finite 15)) =
     Finite (16777210 / 2 ^ 23)"
proof -
  have a: "binary32 (quarter_cosine * 15) = Finite (- 11534683 / 2 ^ 44)"
    unfolding quarter_cosine_def
    by (rule binary32_eval [where e = "- 21" and m = "- 11534683"])
       (simp_all add: round_half_even_def Let_def)
  have b: "binary32 (2 + - 11534683 / 2 ^ 44) = Finite (16777210 / 2 ^ 23)"
    by (rule binary32_eval [where e = 0 and m = 16777210])
       (simp_all add: round_half_even_def Let_def)
  show ?thesis
    by (simp only: ieee_add_def ieee_mul_def fp.case a b)
qed

lemmas run_defs = placement_def vec_scale_def vec_add_def ieee_library_def
  forward_on_axes_def pose_def Let_def

lemma placement_walker:
  "placement (ieee_library forward_on_axes) origin_pose 10 5 0 270 = Inr walker_pose"
  by (simp add: run_defs origin_pose_def walker_pose_def whole_numbers walker_sideways)

lemma placement_container:
  "placement (ieee_library forward_on_axes) origin_pose 25 0 0 90 = Inr container_pose"
  by (simp add: run_defs origin_pose_def container_pose_def whole_numbers)

lemma placement_cart:
  "placement (ieee_library forward_on_axes) origin_pose 2 15 2 0 = Inr cart_pose"
  by (simp add: run_defs origin_pose_def cart_pose_def whole_numbers cart_sideways)

lemma initialize_parking_lot:
  "initialize_actors (ieee_library forward_on_axes) obliging parking_lot = Inr parking_lot_ready"
  by (simp add: initialize_actors_def actors_info_def spawn_actor_def compute_transform_eq
      load_def parking_lot_def parking_lot_ready_def obliging_def placement_walker
      placement_container placement_cart)

subsection \<open>Claims about the placement\<close>

text \<open>
  Claim C2. For every reference transform and every placement with the offsets \<open>k\<close>,
  \<open>j\<close>, \<open>z\<close> and the yaw \<open>w\<close>, the computation of \<^verbatim>\<open>spawn_actor\<close> produces what the
  algorithm of the specification produces: \<open>k\<close> units along the forward vector of the
  reference, a turn of 90 degrees, \<open>j\<close> units along the new forward vector, the yaw
  overwritten with the reference's yaw plus \<open>w\<close>, and \<open>z\<close> added to the height, every
  product and sum being the library's; it raises exactly where that arithmetic raises.
  The transform is a new object of the store. This holds whatever the arithmetic of the
  library is.
\<close>

theorem placement_follows_specification:
  assumes "start_transform < length h"
    and "actor_transform ''k'' = Some k" and "actor_transform ''j'' = Some j"
    and "actor_transform ''z'' = Some z" and "actor_transform ''yaw'' = Some w"
  shows "compute_transform lib actor_transform start_transform h =
           ebind (placement lib (h ! start_transform) k j z w)
             (\<lambda>t. Inr (length h, h @ [t]))
       \<and> placed lib actor_transform start_transform h =
           placement lib (h ! start_transform) k j z w"
  using compute_transform_eq [OF assms] placed_eq [OF assms] by simp

text \<open>
  On the arithmetic of IEEE 754, from the origin, facing along the first axis, the
  shopping cart (\<open>k\<close> 2, \<open>j\<close> 15, \<open>z\<close> 2, yaw 0) lands at \<open>16777210 / 2 ^ 23\<close> along the
  first axis, 15 along the second and 2 up.
\<close>

theorem placement_follows_specification_witness:
  "(0::nat) < length [origin_pose]
   \<and> compute_transform (ieee_library forward_on_axes)
       [''yaw'' \<mapsto> 0, ''k'' \<mapsto> 2, ''j'' \<mapsto> 15, ''z'' \<mapsto> 2] 0 [origin_pose] =
       Inr (1, [origin_pose, cart_pose])
   \<and> placed (ieee_library forward_on_axes)
       [''yaw'' \<mapsto> 0, ''k'' \<mapsto> 2, ''j'' \<mapsto> 15, ''z'' \<mapsto> 2] 0 [origin_pose] =
       Inr cart_pose"
  using placement_follows_specification
    [of 0 "[origin_pose]" "[''yaw'' \<mapsto> 0, ''k'' \<mapsto> 2, ''j'' \<mapsto> 15, ''z'' \<mapsto> 2]"
        2 15 2 0 "ieee_library forward_on_axes"]
  by (simp add: placement_cart)

text \<open>
  Claim C3, as stated: when the yaw of the reference lies in the normalized range, so
  does the yaw of the placed transform. The computation adds the two yaws and normalizes
  nothing: a reference of yaw 100, inside the range from -180 to 180, puts the walker
  at yaw 370, whatever the forward vectors are.
\<close>

theorem yaw_leaves_range_counterexample:
  "yaw_in_range (- 180) 180 (yaw (rotation (pose 0 0 0 100)))
   \<and> (\<forall>fwd. map_sum id (\<lambda>t. yaw (rotation t))
        (placed (ieee_library fwd) (snd (actors_info ! 0)) 0 [pose 0 0 0 100]) =
          Inr (Finite 370))
   \<and> \<not> yaw_in_range (- 180) 180 (Finite 370)"
proof -
  have s: "ieee_field_sum (Finite 100) 270 = Inr (Finite 370)"
    by (simp add: whole_numbers)
  have "\<And>fwd. \<exists>t. placement (ieee_library fwd) (pose 0 0 0 100) 10 5 0 270 = Inr t"
    by (rule placement_returns [where dz = 0 and dw = 270])
       (simp_all add: whole_numbers binary64_numeral)
  then have "\<And>fwd. map_sum id (\<lambda>t. yaw (rotation t))
      (placement (ieee_library fwd) (pose 0 0 0 100) 10 5 0 270) = Inr (Finite 370)"
  proof -
    fix fwd
    assume "\<And>fwd. \<exists>t. placement (ieee_library fwd) (pose 0 0 0 100) 10 5 0 270 = Inr t"
    then obtain t where t: "placement (ieee_library fwd) (pose 0 0 0 100) 10 5 0 270 = Inr t"
      by blast
    from placement_yaw [OF t] s have "yaw (rotation t) = Finite 370"
      by (simp add: ieee_library_def pose_def)
    with t show "map_sum id (\<lambda>t. yaw (rotation t))
      (placement (ieee_library fwd) (pose 0 0 0 100) 10 5 0 270) = Inr (Finite 370)"
      by simp
  qed
  then show ?thesis
    by (simp add: yaw_in_range_def actors_info_def pose_def
        placed_eq [where k = 10 and j = 5 and z = 0 and w = 270])
qed

text \<open>
  Claim C3, amended: for each of the three placements of the scenario and every
  reference, the computation returns a transform, and its yaw is the sum of the
  reference's yaw and the placement's yaw as the library computes and stores it,
  without normalization. So the yaw lies in the normalized range only when that sum
  does.
\<close>

theorem scenario_yaw_is_offset_sum:
  assumes "(actor_name, actor_transform) \<in> set actors_info"
    and "start_transform < length h"
  shows "\<exists>t w. actor_transform ''yaw'' = Some w
           \<and> placed (ieee_library fwd) actor_transform start_transform h = Inr t
           \<and> ieee_field_sum (yaw (rotation (h ! start_transform))) w = Inr (yaw (rotation t))"
proof -
  have f: "field_sum (ieee_library fwd) = ieee_field_sum"
    by (simp add: ieee_library_def)
  from assms(1) consider
      "actor_transform = [''yaw'' \<mapsto> 270, ''k'' \<mapsto> 10, ''j'' \<mapsto> 5, ''z'' \<mapsto> 0]"
    | "actor_transform = [''yaw'' \<mapsto> 90, ''k'' \<mapsto> 25, ''j'' \<mapsto> 0, ''z'' \<mapsto> 0]"
    | "actor_transform = [''yaw'' \<mapsto> 0, ''k'' \<mapsto> 2, ''j'' \<mapsto> 15, ''z'' \<mapsto> 2]"
    by (auto simp: actors_info_def)
  then show ?thesis
  proof cases
    case 1
    have "\<exists>t. placement (ieee_library fwd) (h ! start_transform) 10 5 0 270 = Inr t"
      by (rule placement_returns [where dz = 0 and dw = 270])
         (simp_all add: whole_numbers binary64_numeral)
    then obtain t where t: "placement (ieee_library fwd) (h ! start_transform) 10 5 0 270 = Inr t"
      by blast
    from placement_yaw [OF t] t 1 assms(2) show ?thesis
      by (simp add: f placed_eq [where k = 10 and j = 5 and z = 0 and w = 270])
  next
    case 2
    have "\<exists>t. placement (ieee_library fwd) (h ! start_transform) 25 0 0 90 = Inr t"
      by (rule placement_returns [where dz = 0 and dw = 90])
         (simp_all add: whole_numbers binary64_numeral)
    then obtain t where t: "placement (ieee_library fwd) (h ! start_transform) 25 0 0 90 = Inr t"
      by blast
    from placement_yaw [OF t] t 2 assms(2) show ?thesis
      by (simp add: f placed_eq [where k = 25 and j = 0 and z = 0 and w = 90])
  next
    case 3
    have "\<exists>t. placement (ieee_library fwd) (h ! start_transform) 2 15 2 0 = Inr t"
      by (rule placement_returns [where dz = 2 and dw = 0])
         (simp_all add: whole_numbers binary64_numeral)
    then obtain t where t: "placement (ieee_library fwd) (h ! start_transform) 2 15 2 0 = Inr t"
      by blast
    from placement_yaw [OF t] t 3 assms(2) show ?thesis
      by (simp add: f placed_eq [where k = 2 and j = 15 and z = 2 and w = 0])
  qed
qed

text \<open>The container, from the origin: yaw 0 plus 90.\<close>

theorem scenario_yaw_is_offset_sum_witness:
  "(''static.prop.container'', snd (actors_info ! 1)) \<in>
     set (actors_info :: (string \<times> int placement_dict) list)
   \<and> (0::nat) < length [origin_pose]
   \<and> (\<exists>t w. snd (actors_info ! 1) ''yaw'' = Some w
         \<and> placed (ieee_library forward_on_axes) (snd (actors_info ! 1)) 0 [origin_pose] = Inr t
         \<and> ieee_field_sum (yaw (rotation ([origin_pose] ! 0))) w = Inr (yaw (rotation t)))"
proof -
  have m: "(''static.prop.container'', snd (actors_info ! 1)) \<in>
      set (actors_info :: (string \<times> int placement_dict) list)"
    by (simp add: actors_info_def)
  have v: "(0::nat) < length [origin_pose]"
    by simp
  from scenario_yaw_is_offset_sum [OF m v, of forward_on_axes] m v
  show ?thesis by blast
qed

text \<open>
  Claim C4. With \<open>k\<close>, \<open>j\<close> and \<open>z\<close> all zero, the placed transform is the reference
  transform with only the yaw offset applied: same location, same pitch and roll, the
  yaw the stored sum of the reference's yaw and the placement's yaw. On the arithmetic of
  IEEE 754 this holds when the coordinates of the reference are numbers that a field
  of the library can hold (infinite ones included) and the two forward vectors met on
  the way, at the reference's rotation and after the turn, are finite: zero times a
  finite component is zero, and adding zero changes no coordinate. A forward vector
  with an infinite component or NaN would spoil the location; nothing is divided
  anywhere. The final sum returns for every Python integer that converts to a float.
\<close>

theorem zero_offsets_turn_only:
  assumes "start_transform < length h"
    and "actor_transform ''k'' = Some 0" and "actor_transform ''j'' = Some 0"
    and "actor_transform ''z'' = Some 0" and "actor_transform ''yaw'' = Some w"
    and "binary32_vector (location (h ! start_transform))"
    and "finite_vector (fwd (rotation (h ! start_transform)))"
    and "ieee_field_sum (yaw (rotation (h ! start_transform))) 90 = Inr quarter"
    and "finite_vector (fwd ((rotation (h ! start_transform))\<lparr>yaw := quarter\<rparr>))"
    and "ieee_field_sum (yaw (rotation (h ! start_transform))) w = Inr final"
  shows "placed (ieee_library fwd) actor_transform start_transform h =
           Inr ((h ! start_transform)
                  \<lparr>rotation := (rotation (h ! start_transform))\<lparr>yaw := final\<rparr>\<rparr>)"
proof -
  let ?ref = "h ! start_transform"
  have f: "forward_vector (ieee_library fwd) = fwd" "field_sum (ieee_library fwd) = ieee_field_sum"
    by (simp_all add: ieee_library_def)
  from assms(6) have z: "ieee_field_sum (vz (location ?ref)) 0 = Inr (vz (location ?ref))"
    by (simp add: binary32_vector_def ieee_field_sum_zero)
  have "placement (ieee_library fwd) ?ref 0 0 0 w =
      Inr (?ref\<lparr>rotation := (rotation ?ref)\<lparr>yaw := final\<rparr>\<rparr>)"
    by (simp add: placement_def Let_def f vec_scale_zero [OF assms(7)]
        vec_scale_zero [OF assms(9)] vec_add_zero [OF assms(6)] assms(8,10) z)
  then show ?thesis
    by (simp add: placed_eq [OF assms(1-5)])
qed

text \<open>A reference at 10 ahead and 5 to the side, facing along the first axis; yaw offset 45.\<close>

theorem zero_offsets_turn_only_witness:
  "placed (ieee_library forward_on_axes) [''yaw'' \<mapsto> 45, ''k'' \<mapsto> 0, ''j'' \<mapsto> 0, ''z'' \<mapsto> 0] 1
     [origin_pose, pose 10 5 0 0] = Inr (pose 10 5 0 45)"
proof -
  have a: "binary32_vector (location ([origin_pose, pose 10 5 0 0] ! 1))"
    by (simp add: pose_def binary32_vector_def binary32_value_def binary32_numeral)
  have b: "finite_vector (forward_on_axes (rotation ([origin_pose, pose 10 5 0 0] ! 1)))"
    by (simp add: pose_def forward_on_axes_def finite_vector_def)
  have c: "ieee_field_sum (yaw (rotation ([origin_pose, pose 10 5 0 0] ! 1))) 90 = Inr (Finite 90)"
    by (simp add: pose_def whole_numbers)
  have d: "finite_vector (forward_on_axes
      ((rotation ([origin_pose, pose 10 5 0 0] ! 1))\<lparr>yaw := Finite 90\<rparr>))"
    by (simp add: pose_def forward_on_axes_def finite_vector_def)
  have e: "ieee_field_sum (yaw (rotation ([origin_pose, pose 10 5 0 0] ! 1))) 45 = Inr (Finite 45)"
    by (simp add: pose_def whole_numbers)
  from zero_offsets_turn_only
    [of 1 "[origin_pose, pose 10 5 0 0]"
        "[''yaw'' \<mapsto> 45, ''k'' \<mapsto> 0, ''j'' \<mapsto> 0, ''z'' \<mapsto> 0]" 45 forward_on_axes
        "Finite 90" "Finite 45", OF _ _ _ _ _ a b c d e]
  show ?thesis
    by (simp add: pose_def)
qed

subsection \<open>Claims about spawning\<close>

text \<open>
  Claim C8. Every supporting actor spawned during initialization has its physics
  enabled immediately after the request that spawned it, and is appended to the
  scenario's list of owned actors before the next actor is spawned. For every entry of
  \<^verbatim>\<open>actors_info\<close> that the loop gets through: the call of \<^verbatim>\<open>spawn_actor\<close> for it adds to
  the calls the request and, directly after it, the enabling of physics for the actor
  delivered, and appends that actor to the list; the rest of the initialization, whether
  it returns or raises, starts from the state so reached.
\<close>

theorem spawned_actor_physics_then_owned:
  assumes "actors_info = before @ (actor_name, actor_transform) # rest"
    and "spawn_each lib request (before @ [(actor_name, actor_transform)]) s = Inr s1"
  shows "(\<exists>s0 t actor.
            spawn_each lib request before s = Inr s0
          \<and> spawn_actor lib request actor_name actor_transform (reference_transform s0) s0 =
              Inr s1
          \<and> request (calls s0) actor_name t = Inr actor
          \<and> calls s1 =
              calls s0 @ [RequestNewActor actor_name t actor, SetSimulatePhysics actor True]
          \<and> other_actors s1 = other_actors s0 @ [actor])
       \<and> initialize_actors lib request s = spawn_each lib request rest s1"
proof -
  from assms(2) have "ebind (spawn_each lib request before s)
      (spawn_each lib request [(actor_name, actor_transform)]) = Inr s1"
    by (simp only: spawn_each_append)
  then obtain s0 where s0: "spawn_each lib request before s = Inr s0"
    and r: "spawn_each lib request [(actor_name, actor_transform)] s0 = Inr s1"
    by (blast dest: ebind_InrD)
  from r have
    s1: "spawn_actor lib request actor_name actor_transform (reference_transform s0) s0 = Inr s1"
    by (auto dest: ebind_InrD)
  have "before @ (actor_name, actor_transform) # rest =
      (before @ [(actor_name, actor_transform)]) @ rest"
    by simp
  then have "initialize_actors lib request s =
      ebind (spawn_each lib request (before @ [(actor_name, actor_transform)]) s)
        (spawn_each lib request rest)"
    unfolding initialize_actors_def assms(1) by (simp only: spawn_each_append)
  then have i: "initialize_actors lib request s = spawn_each lib request rest s1"
    by (simp add: assms(2))
  from spawn_actor_appends [OF s1] s0 s1 i show ?thesis
    by blast
qed

text \<open>The container, second of the three, when the simulator delivers every actor.\<close>

theorem spawned_actor_physics_then_owned_witness:
  "(actors_info :: (string \<times> int placement_dict) list) =
     [actors_info ! 0] @ (''static.prop.container'', snd (actors_info ! 1)) # [actors_info ! 2]
   \<and> spawn_each (ieee_library forward_on_axes) obliging
       ([actors_info ! 0] @ [(''static.prop.container'', snd (actors_info ! 1))]) parking_lot =
       Inr parking_lot_two_spawned
   \<and> (\<exists>s0 t actor.
           spawn_each (ieee_library forward_on_axes) obliging [actors_info ! 0] parking_lot =
             Inr s0
         \<and> spawn_actor (ieee_library forward_on_axes) obliging ''static.prop.container''
              (snd (actors_info ! 1)) (reference_transform s0) s0 = Inr parking_lot_two_spawned
         \<and> obliging (calls s0) ''static.prop.container'' t = Inr actor
         \<and> calls parking_lot_two_spawned =
              calls s0 @ [RequestNewActor ''static.prop.container'' t actor,
                          SetSimulatePhysics actor True]
         \<and> other_actors parking_lot_two_spawned = other_actors s0 @ [actor])
   \<and> initialize_actors (ieee_library forward_on_axes) obliging parking_lot =
       spawn_each (ieee_library forward_on_axes) obliging [actors_info ! 2]
         parking_lot_two_spawned"
proof -
  have a: "(actors_info :: (string \<times> int placement_dict) list) =
      [actors_info ! 0] @ (''static.prop.container'', snd (actors_info ! 1)) # [actors_info ! 2]"
    by (simp add: actors_info_def)
  have p: "spawn_each (ieee_library forward_on_axes) obliging
       ([actors_info ! 0] @ [(''static.prop.container'', snd (actors_info ! 1))]) parking_lot =
       Inr parking_lot_two_spawned"
    by (simp add: actors_info_def spawn_actor_def compute_transform_eq load_def
        parking_lot_def parking_lot_two_spawned_def obliging_def placement_walker
        placement_container)
  from spawned_actor_physics_then_owned [OF a p] a p show ?thesis
    by blast
qed

text \<open>
  Claim C9. A call of \<^verbatim>\<open>spawn_actor\<close> on the stored reference transform computes the
  placement in a new object of the store, leaves the reference and the object it points
  to as they were, and so leaves every later placement as it would have been before the
  call: offsets do not compound across spawns.
\<close>

theorem spawn_actor_keeps_reference:
  assumes "spawn_actor lib request actor_name actor_transform (reference_transform s) s = Inr s1"
  shows "reference_transform s1 = reference_transform s
       \<and> reference_transform s < length (objects s)
       \<and> (\<exists>t. compute_transform lib actor_transform (reference_transform s) (objects s) =
                  Inr (length (objects s), objects s @ [t])
              \<and> objects s1 = objects s @ [t])
       \<and> load (objects s1) (reference_transform s1) = load (objects s) (reference_transform s)
       \<and> placed lib other (reference_transform s1) (objects s1) =
           placed lib other (reference_transform s) (objects s)"
proof -
  from spawn_actor_InrD [OF assms] obtain k j z w t a where
    v: "reference_transform s < length (objects s)" and
    ks: "actor_transform ''k'' = Some k" "actor_transform ''j'' = Some j"
      "actor_transform ''z'' = Some z" "actor_transform ''yaw'' = Some w" and
    t: "placement lib (objects s ! reference_transform s) k j z w = Inr t" and
    s1: "s1 = s\<lparr>objects := objects s @ [t],
              calls := calls s @ [RequestNewActor actor_name t a, SetSimulatePhysics a True],
              other_actors := other_actors s @ [a]\<rparr>"
    by blast
  have r: "reference_transform s1 = reference_transform s"
    by (simp add: s1)
  have o: "objects s1 = objects s @ [t]"
    by (simp add: s1)
  have l: "load (objects s1) (reference_transform s1) = Inr (objects s ! reference_transform s)"
    using v by (simp add: r o load_def nth_append)
  have l': "load (objects s) (reference_transform s) = Inr (objects s ! reference_transform s)"
    using v by (simp add: load_def)
  have c: "compute_transform lib actor_transform (reference_transform s) (objects s) =
      Inr (length (objects s), objects s @ [t])"
    by (simp add: compute_transform_eq [OF v ks] t)
  from r v o l l' c placed_value [OF l l', of lib other]
  show ?thesis by simp
qed

text \<open>The walker is spawned; the placement of the container is what it was.\<close>

theorem spawn_actor_keeps_reference_witness:
  "spawn_actor (ieee_library forward_on_axes) obliging ''walker.*'' (snd (actors_info ! 0))
     (reference_transform parking_lot) parking_lot =
     Inr (parking_lot\<lparr>objects := [origin_pose, walker_pose],
            calls := [RequestNewActor ''walker.*'' walker_pose 1, SetSimulatePhysics 1 True],
            other_actors := [1]\<rparr>)
   \<and> load [origin_pose, walker_pose] 0 = load [origin_pose] 0
   \<and> placed (ieee_library forward_on_axes) (snd (actors_info ! 1)) 0
       [origin_pose, walker_pose] =
       placed (ieee_library forward_on_axes) (snd (actors_info ! 1)) 0 [origin_pose]"
proof -
  have s: "spawn_actor (ieee_library forward_on_axes) obliging ''walker.*''
     (snd (actors_info ! 0)) (reference_transform parking_lot) parking_lot =
     Inr (parking_lot\<lparr>objects := [origin_pose, walker_pose],
            calls := [RequestNewActor ''walker.*'' walker_pose 1, SetSimulatePhysics 1 True],
            other_actors := [1]\<rparr>)"
    by (simp add: actors_info_def spawn_actor_def compute_transform_eq load_def
        parking_lot_def obliging_def placement_walker)
  from spawn_actor_keeps_reference [OF s, of "snd (actors_info ! 1)"] s show ?thesis
    by (simp add: parking_lot_def)
qed

text \<open>
  Claim C10. Initialization spawns exactly three actors, in the order walker,
  container, shopping cart, each placed from the one reference pose with its fixed
  offsets (walker: k 10, j 5, z 0, yaw 270; container: k 25, j 0, z 0, yaw 90; shopping
  cart: k 2, j 15, z 2, yaw 0), and appends them in that order to the list of owned
  actors; on a list that was empty, the walker is at index 0.
\<close>

theorem initialize_spawns_walker_container_cart:
  assumes "initialize_actors lib request s = Inr s'"
  shows "\<exists>reference walker_at container_at cart_at walker container cart.
           load (objects s) (reference_transform s) = Inr reference
         \<and> placement lib reference 10 5 0 270 = Inr walker_at
         \<and> placement lib reference 25 0 0 90 = Inr container_at
         \<and> placement lib reference 2 15 2 0 = Inr cart_at
         \<and> calls s' = calls s @
             [RequestNewActor ''walker.*'' walker_at walker,
              SetSimulatePhysics walker True,
              RequestNewActor ''static.prop.container'' container_at container,
              SetSimulatePhysics container True,
              RequestNewActor ''static.prop.shoppingcart'' cart_at cart,
              SetSimulatePhysics cart True]
         \<and> other_actors s' = other_actors s @ [walker, container, cart]
         \<and> (other_actors s = [] \<longrightarrow>
               other_actors s' = [walker, container, cart]
             \<and> getindex (other_actors s') 0 = Inr walker)"
proof -
  let ?w = "[''yaw'' \<mapsto> 270, ''k'' \<mapsto> 10, ''j'' \<mapsto> 5, ''z'' \<mapsto> (0::'b)]"
  let ?c = "[''yaw'' \<mapsto> 90, ''k'' \<mapsto> 25, ''j'' \<mapsto> 0, ''z'' \<mapsto> (0::'b)]"
  let ?s = "[''yaw'' \<mapsto> 0, ''k'' \<mapsto> 2, ''j'' \<mapsto> 15, ''z'' \<mapsto> (2::'b)]"
  from assms have "spawn_each lib request
      [(''walker.*'', ?w), (''static.prop.container'', ?c), (''static.prop.shoppingcart'', ?s)] s
      = Inr s'"
    by (simp add: initialize_actors_def actors_info_def)
  then obtain s1 where
    1: "spawn_actor lib request ''walker.*'' ?w (reference_transform s) s = Inr s1" and
    t1: "spawn_each lib request
      [(''static.prop.container'', ?c), (''static.prop.shoppingcart'', ?s)] s1 = Inr s'"
    by (auto dest: ebind_InrD)
  from t1 obtain s2 where
    2: "spawn_actor lib request ''static.prop.container'' ?c (reference_transform s1) s1 = Inr s2" and
    t2: "spawn_each lib request [(''static.prop.shoppingcart'', ?s)] s2 = Inr s'"
    by (auto dest: ebind_InrD)
  from t2 have
    3: "spawn_actor lib request ''static.prop.shoppingcart'' ?s (reference_transform s2) s2 = Inr s'"
    by (auto dest: ebind_InrD)
  let ?r = "reference_transform s"
  from spawn_actor_InrD [OF 1] obtain p1 a1 where
    v: "?r < length (objects s)" and
    p1: "placement lib (objects s ! ?r) 10 5 0 270 = Inr p1" and
    a1: "s1 = s\<lparr>objects := objects s @ [p1],
              calls := calls s @ [RequestNewActor ''walker.*'' p1 a1, SetSimulatePhysics a1 True],
              other_actors := other_actors s @ [a1]\<rparr>"
    by auto
  have r1: "reference_transform s1 = ?r" and o1: "objects s1 ! ?r = objects s ! ?r"
    using v by (simp_all add: a1 nth_append)
  from spawn_actor_InrD [OF 2] obtain p2 a2 where
    p2: "placement lib (objects s ! ?r) 25 0 0 90 = Inr p2" and
    a2: "s2 = s1\<lparr>objects := objects s1 @ [p2],
              calls := calls s1 @ [RequestNewActor ''static.prop.container'' p2 a2, SetSimulatePhysics a2 True],
              other_actors := other_actors s1 @ [a2]\<rparr>"
    by (auto simp: r1 o1)
  have r2: "reference_transform s2 = ?r" and o2: "objects s2 ! ?r = objects s ! ?r"
    using v by (simp_all add: a2 a1 nth_append)
  from spawn_actor_InrD [OF 3] obtain p3 a3 where
    p3: "placement lib (objects s ! ?r) 2 15 2 0 = Inr p3" and
    a3: "s' = s2\<lparr>objects := objects s2 @ [p3],
              calls := calls s2 @ [RequestNewActor ''static.prop.shoppingcart'' p3 a3, SetSimulatePhysics a3 True],
              other_actors := other_actors s2 @ [a3]\<rparr>"
    by (auto simp: r2 o2)
  have l: "load (objects s) ?r = Inr (objects s ! ?r)"
    using v by (simp add: load_def)
  have c: "calls s' = calls s @
             [RequestNewActor ''walker.*'' p1 a1, SetSimulatePhysics a1 True,
              RequestNewActor ''static.prop.container'' p2 a2, SetSimulatePhysics a2 True,
              RequestNewActor ''static.prop.shoppingcart'' p3 a3, SetSimulatePhysics a3 True]"
    by (simp add: a3 a2 a1)
  have o: "other_actors s' = other_actors s @ [a1, a2, a3]"
    by (simp add: a3 a2 a1)
  from l c o p1 p2 p3 show ?thesis
    by (auto simp: getindex_def)
qed

text \<open>The scenario at the origin, with a simulator that delivers every actor.\<close>

theorem initialize_spawns_walker_container_cart_witness:
  "initialize_actors (ieee_library forward_on_axes) obliging parking_lot = Inr parking_lot_ready
   \<and> other_actors parking_lot = []
   \<and> (\<exists>reference walker_at container_at cart_at walker container cart.
           load (objects parking_lot) (reference_transform parking_lot) = Inr reference
         \<and> placement (ieee_library forward_on_axes) reference 10 5 0 270 = Inr walker_at
         \<and> placement (ieee_library forward_on_axes) reference 25 0 0 90 = Inr container_at
         \<and> placement (ieee_library forward_on_axes) reference 2 15 2 0 = Inr cart_at
         \<and> calls parking_lot_ready = calls parking_lot @
             [RequestNewActor ''walker.*'' walker_at walker,
              SetSimulatePhysics walker True,
              RequestNewActor ''static.prop.container'' container_at container,
              SetSimulatePhysics container True,
              RequestNewActor ''static.prop.shoppingcart'' cart_at cart,
              SetSimulatePhysics cart True]
         \<and> other_actors parking_lot_ready = [walker, container, cart]
         \<and> getindex (other_actors parking_lot_ready) 0 = Inr walker)"
proof -
  have i: "initialize_actors (ieee_library forward_on_axes) obliging parking_lot =
      Inr parking_lot_ready"
    by (rule initialize_parking_lot)
  have e: "other_actors parking_lot = []"
    by (simp add: parking_lot_def)
  from initialize_spawns_walker_container_cart [OF i] i e show ?thesis
    by (simp add: e)
qed

subsection \<open>Claims about the behaviour tree and the criteria\<close>

text \<open>
  Claim C1, on the code: the specification has the velocity and the distance nodes
  under a parallel composite that succeeds on its first child, itself the second child
  of the sequence. In the scenario after initialization the tree built is the flat
  sequence of five leaves, not the tree of the specification.
\<close>

theorem behavior_tree_is_flat_sequence:
  "create_behavior parking_lot_ready =
     Inr (Sequence ''Sequence''
       [InTimeToArrivalToVehicle 0 1 5, KeepVelocity 1 4 ''walker velocity'',
        DriveDistance 1 10 ''walker drive distance'', StopVehicle 1 1 ''walker stop'',
        Idle 60])
   \<and> create_behavior parking_lot_ready \<noteq>
     Inr (specified_tree (InTimeToArrivalToVehicle 0 1 5)
       (KeepVelocity 1 4 ''walker velocity'') (DriveDistance 1 10 ''walker drive distance'')
       (StopVehicle 1 1 ''walker stop'') (Idle 60) ''Sequence'' ''keep velocity other'')"
  by (simp add: create_behavior_def parking_lot_ready_def getindex_def add_child_def Let_def
      specified_tree_def)

text \<open>
  Claim C6. The list of criteria is exactly one collision test, on the first ego
  vehicle.
\<close>

theorem criteria_one_collision_test:
  assumes "ego_vehicles s = ego # others"
  shows "create_test_criteria s = Inr [CollisionTest ego]"
  using assms by (simp add: create_test_criteria_def getindex_def Let_def)

theorem criteria_one_collision_test_witness:
  "ego_vehicles parking_lot_ready = 0 # []
   \<and> create_test_criteria parking_lot_ready = Inr [CollisionTest 0]"
proof -
  have e: "ego_vehicles parking_lot_ready = 0 # []"
    by (simp add: parking_lot_ready_def)
  from criteria_one_collision_test [OF e] e show ?thesis
    by simp
qed

end
